theory Spec2Isabelle
  imports Main
begin

section \<open>The Talk server lifecycle (src/core/server/index.ts)\<close>

text \<open>
  The class \<open>Server\<close> has three lifecycle methods, \<open>connect\<close>, \<open>process\<close> and
  \<open>start\<close>. Each is an async function whose body is a straight line of calls to
  collaborators (database drivers, the tenant cache, the queue factory, express). The
  collaborators are not part of the file, so every one of their calls takes its outcome
  from an environment: a value, or the error it raised. A method is a function from the
  server object to its outcome, the server object it leaves behind and the calls and log
  lines it made, in order. An error leaves the fields assigned so far in place, as a
  JavaScript exception does.
\<close>

subsection \<open>Data\<close>

text \<open>
  \<open>Error\<close> is \<open>new Error(message)\<close>. \<open>TypeError\<close> is what the JavaScript engine raises on a
  property read of \<open>undefined\<close>; its argument names the property (the message text depends
  on the engine).
\<close>

datatype error = Error string | TypeError string

text \<open>Objects owned by collaborators (a Db, a redis client, a queue, ...) are opaque.\<close>

type_synonym handle = nat

text \<open>The configuration keys that the three methods read with \<open>config.get\<close>.\<close>

record config =
  port :: int
  concurrency :: int
  cluster_metrics_port :: int
  disable_mongodb_autoindexing :: bool
  disable_client_routes :: bool
  metrics_username :: "string option"
  metrics_password :: "string option"

text \<open>
  JavaScript truthiness of a configuration string: \<open>null\<close>/\<open>undefined\<close> (here \<open>None\<close>)
  and the empty string are falsy, every other string is truthy.
\<close>

fun truthy :: "string option \<Rightarrow> bool" where
  "truthy None = False"
| "truthy (Some s) = (s \<noteq> [])"

text \<open>The middleware values that \<open>process\<close> mounts on the cluster metrics server.\<close>

datatype middleware =
    accessLogger
  | basicAuth "string option" "string option"
  | noCacheMiddleware
  | clusterMetricsHandler
  | notFoundMiddleware
  | errorLogger
  | JSONErrorHandler

text \<open>\<open>app.use(mw)\<close>, \<open>app.use(path, mw)\<close> and \<open>app.get(path, mw, ...)\<close>.\<close>

datatype layer =
    Use "string option" middleware
  | Get string "middleware list"

text \<open>
  An express application built in this file is the list of its layers in mounting order
  (\<open>express()\<close> is \<open>Express []\<close>); the one returned by \<open>createApp\<close> is opaque.
\<close>

datatype express = Express "layer list" | App handle

record task_queue =
  mailer :: handle
  scraper :: handle

text \<open>The argument object of \<open>createApp\<close>, in the order the source writes it.\<close>

record create_app_options =
  app_parent :: express
  app_mongo :: "handle option"
  app_redis :: "handle option"
  app_signingConfig :: handle
  app_tenantCache :: "handle option"
  app_config :: config
  app_schema :: handle
  app_i18n :: handle
  app_mailerQueue :: handle
  app_scraperQueue :: handle
  app_metrics :: bool
  app_disableClientRoutes :: bool

text \<open>
  The fields of the class. A field declared without initialiser (\<open>tasks\<close>, \<open>mongo\<close>, ...)
  is \<open>undefined\<close> until it is assigned: \<open>None\<close>.
\<close>

record server =
  parentApp :: express
  schema :: handle
  config :: config
  httpServer :: "handle option"
  tasks :: "task_queue option"
  redis :: "handle option"
  mongo :: "handle option"
  tenantCache :: "handle option"
  connected :: bool
  processing :: bool
  i18n :: handle

text \<open>
  The constructor, given the loaded and validated configuration, the schema returned by
  \<open>getTenantSchema()\<close> and the \<open>I18n\<close> object.
\<close>

definition new_Server :: "config \<Rightarrow> handle \<Rightarrow> handle \<Rightarrow> server" where
  "new_Server cfg sch i =
     \<lparr> parentApp = Express [], schema = sch, config = cfg, httpServer = None,
       tasks = None, redis = None, mongo = None, tenantCache = None,
       connected = False, processing = False, i18n = i \<rparr>"

subsection \<open>Calls to collaborators and the trace\<close>

datatype call =
    i18n_load
  | createMongoDB
  | createAugmentedRedisClient
  | createRedisClient
  | new_TenantCache "handle option" handle
  | primeAll
  | createQueue "handle option" "handle option" handle
  | collectDefaultMetrics
  | ensureIndexes "handle option"
  | queue_process handle
  | new_AggregatorRegistry
  | listenAndServe express int
  | createJWTSigningConfig
  | createApp create_app_options

text \<open>
  \<open>Called c\<close>: the call was made. \<open>Returned c\<close>: it returned (for an awaited call, its
  promise resolved). \<open>Log m\<close>: \<open>logger.info\<close> with message \<open>m\<close>.
\<close>

datatype event = Called call | Returned call | Log string

type_synonym 'a io = "server \<Rightarrow> (error + 'a) \<times> server \<times> event list"

definition io_return :: "'a \<Rightarrow> 'a io" where
  "io_return x = (\<lambda>s. (Inr x, s, []))"

definition io_throw :: "error \<Rightarrow> 'a io" where
  "io_throw e = (\<lambda>s. (Inl e, s, []))"

definition io_bind :: "'a io \<Rightarrow> ('a \<Rightarrow> 'b io) \<Rightarrow> 'b io" where
  "io_bind m f = (\<lambda>s. case m s of
       (Inl e, s', t) \<Rightarrow> (Inl e, s', t)
     | (Inr x, s', t) \<Rightarrow> (case f x s' of (r, s'', t') \<Rightarrow> (r, s'', t @ t')))"

definition io_this :: "server io" where
  "io_this = (\<lambda>s. (Inr s, s, []))"

definition io_assign :: "(server \<Rightarrow> server) \<Rightarrow> unit io" where
  "io_assign f = (\<lambda>s. (Inr (), f s, []))"

definition io_log :: "string \<Rightarrow> unit io" where
  "io_log m = (\<lambda>s. (Inr (), s, [Log m]))"

text \<open>A call to a collaborator: it returns the value or raises the error of its outcome.\<close>

definition io_call :: "call \<Rightarrow> error + 'a \<Rightarrow> 'a io" where
  "io_call c outcome = (\<lambda>s. case outcome of
       Inl e \<Rightarrow> (Inl e, s, [Called c])
     | Inr v \<Rightarrow> (Inr v, s, [Called c, Returned c]))"

subsection \<open>connect\<close>

record connect_env =
  i18n_load_result :: "error + unit"
  createMongoDB_result :: "error + handle"
  createAugmentedRedisClient_result :: "error + handle"
  createRedisClient_result :: "error + handle"
  new_TenantCache_result :: "error + handle"
  primeAll_result :: "error + unit"
  createQueue_result :: "error + task_queue"
  collectDefaultMetrics_result :: "error + unit"

definition connect :: "connect_env \<Rightarrow> unit io" where
  "connect env =
     io_bind io_this (\<lambda>this.
     if connected this then io_throw (Error ''server has already connected'')
     else
     io_bind (io_assign (\<lambda>s. s\<lparr>connected := True\<rparr>)) (\<lambda>_.
     io_bind (io_call i18n_load (i18n_load_result env)) (\<lambda>_.
     io_bind (io_call createMongoDB (createMongoDB_result env)) (\<lambda>db.
     io_bind (io_assign (\<lambda>s. s\<lparr>mongo := Some db\<rparr>)) (\<lambda>_.
     io_bind (io_call createAugmentedRedisClient (createAugmentedRedisClient_result env)) (\<lambda>r.
     io_bind (io_assign (\<lambda>s. s\<lparr>redis := Some r\<rparr>)) (\<lambda>_.
     io_bind (io_call createRedisClient (createRedisClient_result env)) (\<lambda>rc.
     io_bind (io_call (new_TenantCache (Some db) rc) (new_TenantCache_result env)) (\<lambda>tc.
     io_bind (io_assign (\<lambda>s. s\<lparr>tenantCache := Some tc\<rparr>)) (\<lambda>_.
     io_bind (io_call primeAll (primeAll_result env)) (\<lambda>_.
     io_bind (io_call (createQueue (Some db) (Some tc) (i18n this)) (createQueue_result env)) (\<lambda>q.
     io_bind (io_assign (\<lambda>s. s\<lparr>tasks := Some q\<rparr>)) (\<lambda>_.
     io_call collectDefaultMetrics (collectDefaultMetrics_result env))))))))))))))"

subsection \<open>process\<close>

text \<open>
  The callback that the \<open>/cluster_metrics\<close> handler passes to
  \<open>aggregatorRegistry.clusterMetrics\<close>, as the list of what it does with the response:
  \<open>next(err)\<close>, \<open>res.set(name, value)\<close>, \<open>res.send(body)\<close>.
\<close>

datatype response_effect = next_err error | res_set string string | res_send string

record aggregator_registry =
  contentType :: string
  clusterMetrics :: "error option \<times> string"

definition clusterMetricsCallback ::
  "aggregator_registry \<Rightarrow> error option \<Rightarrow> string \<Rightarrow> response_effect list" where
  "clusterMetricsCallback aggregatorRegistry err metrics =
     (case err of
        Some e \<Rightarrow> [next_err e]
      | None \<Rightarrow> [res_set ''Content-Type'' (contentType aggregatorRegistry), res_send metrics])"

text \<open>
  The handler itself: \<open>clusterMetrics\<close> invokes the callback with the error and the
  metrics of the aggregation.
\<close>

definition cluster_metrics_handler :: "aggregator_registry \<Rightarrow> response_effect list" where
  "cluster_metrics_handler aggregatorRegistry =
     (case clusterMetrics aggregatorRegistry of
        (err, metrics) \<Rightarrow> clusterMetricsCallback aggregatorRegistry err metrics)"

text \<open>\<open>isMaster\<close> is \<open>cluster.isMaster\<close>.\<close>

record process_env =
  isMaster :: bool
  ensureIndexes_result :: "error + unit"
  mailer_process_result :: "error + unit"
  scraper_process_result :: "error + unit"
  new_AggregatorRegistry_result :: "error + unit"
  metrics_listenAndServe_result :: "error + handle"

definition process :: "process_env \<Rightarrow> unit io" where
  "process env =
     io_bind io_this (\<lambda>this.
     if processing this then io_throw (Error ''server has already processing'')
     else
     io_bind (io_assign (\<lambda>s. s\<lparr>processing := True\<rparr>)) (\<lambda>_.
     io_bind
       (if \<not> disable_mongodb_autoindexing (config this) then
          io_bind (io_log ''mongodb autoindexing is enabled, starting indexing'') (\<lambda>_.
          io_call (ensureIndexes (mongo this)) (ensureIndexes_result env))
        else io_log ''mongodb autoindexing is disabled, skipping indexing'') (\<lambda>_.
     case tasks this of
       None \<Rightarrow> io_throw (TypeError ''mailer'')
     | Some q \<Rightarrow>
     io_bind (io_call (queue_process (mailer q)) (mailer_process_result env)) (\<lambda>_.
     io_bind (io_call (queue_process (scraper q)) (scraper_process_result env)) (\<lambda>_.
     if isMaster env \<and> concurrency (config this) > 1 then
       io_bind (io_call new_AggregatorRegistry (new_AggregatorRegistry_result env)) (\<lambda>_.
       let metricsServer = [Use None accessLogger];
           username = metrics_username (config this);
           password = metrics_password (config this) in
       io_bind
         (if truthy username \<and> truthy password then
            io_bind (io_log ''adding authentication to metrics endpoint'') (\<lambda>_.
            io_return (metricsServer @ [Use (Some ''/cluster_metrics'') (basicAuth username password)]))
          else
            io_bind (io_log ''not adding authentication to metrics endpoint, credentials not provided'') (\<lambda>_.
            io_return metricsServer)) (\<lambda>metricsServer.
       let metricsServer = metricsServer @
             [Get ''/cluster_metrics'' [noCacheMiddleware, clusterMetricsHandler],
              Use None notFoundMiddleware,
              Use None errorLogger,
              Use None JSONErrorHandler];
           p = cluster_metrics_port (config this) in
       io_bind (io_call (listenAndServe (Express metricsServer) p)
                  (metrics_listenAndServe_result env)) (\<lambda>_.
       io_log ''now listening for cluster metrics'')))
     else io_return ())))))"

subsection \<open>start\<close>

record start_env =
  createJWTSigningConfig_result :: "error + handle"
  createApp_result :: "error + handle"
  listenAndServe_result :: "error + handle"

definition start :: "express option \<Rightarrow> start_env \<Rightarrow> unit io" where
  "start parent env =
     io_bind io_this (\<lambda>this.
     if \<not> connected this then io_throw (Error ''server has not connected yet'')
     else
     let p = port (config this);
         parent = (case parent of Some a \<Rightarrow> a | None \<Rightarrow> parentApp this) in
     io_bind (io_call createJWTSigningConfig (createJWTSigningConfig_result env)) (\<lambda>signingConfig.
     let metrics = (concurrency (config this) = 1);
         disableClientRoutes = disable_client_routes (config this) in
     case tasks this of
       None \<Rightarrow> io_throw (TypeError ''mailer'')
     | Some q \<Rightarrow>
     io_bind (io_call (createApp
                \<lparr> app_parent = parent, app_mongo = mongo this, app_redis = redis this,
                  app_signingConfig = signingConfig, app_tenantCache = tenantCache this,
                  app_config = config this, app_schema = schema this, app_i18n = i18n this,
                  app_mailerQueue = mailer q, app_scraperQueue = scraper q,
                  app_metrics = metrics, app_disableClientRoutes = disableClientRoutes \<rparr>)
                (createApp_result env)) (\<lambda>app.
     io_bind (io_call (listenAndServe (App app) p) (listenAndServe_result env)) (\<lambda>srv.
     io_bind (io_assign (\<lambda>s. s\<lparr>httpServer := Some srv\<rparr>)) (\<lambda>_.
     io_log ''now listening'')))))"

subsection \<open>Observing a run\<close>

definition io_result :: "(error + 'a) \<times> server \<times> event list \<Rightarrow> error + 'a" where
  "io_result r = fst r"

definition io_state :: "(error + 'a) \<times> server \<times> event list \<Rightarrow> server" where
  "io_state r = fst (snd r)"

definition io_trace :: "(error + 'a) \<times> server \<times> event list \<Rightarrow> event list" where
  "io_trace r = snd (snd r)"

text \<open>
  \<open>only_after P Q t\<close>: in the trace \<open>t\<close> no event satisfying \<open>Q\<close> comes before the first
  event satisfying \<open>P\<close> (so if no \<open>P\<close> event happens, no \<open>Q\<close> event happens at all).
\<close>

fun only_after :: "(event \<Rightarrow> bool) \<Rightarrow> (event \<Rightarrow> bool) \<Rightarrow> event list \<Rightarrow> bool" where
  "only_after P Q [] = True"
| "only_after P Q (e # es) = (P e \<or> (\<not> Q e \<and> only_after P Q es))"

fun is_createQueue :: "event \<Rightarrow> bool" where
  "is_createQueue (Called (createQueue m c i)) = True"
| "is_createQueue _ = False"

text \<open>The calls that create an application or bind one to a port.\<close>

fun is_serving :: "event \<Rightarrow> bool" where
  "is_serving (Called (createApp opts)) = True"
| "is_serving (Called (listenAndServe a p)) = True"
| "is_serving _ = False"

text \<open>
  A caller of the server: any sequence of invocations of the three methods, each with the
  environment it meets. The caller goes on after an error, which is the most a caller can
  do (a caller that stops is a shorter sequence).
\<close>

datatype op = Connect connect_env | Process process_env | Start "express option" start_env

fun exec :: "op \<Rightarrow> unit io" where
  "exec (Connect env) = connect env"
| "exec (Process env) = process env"
| "exec (Start parent env) = start parent env"

fun run :: "op list \<Rightarrow> server \<Rightarrow> server \<times> event list" where
  "run [] s = (s, [])"
| "run (a # as) s =
     (case exec a s of (r, s', t) \<Rightarrow> (case run as s' of (s'', t') \<Rightarrow> (s'', t @ t')))"

fun is_Connect :: "op \<Rightarrow> bool" where
  "is_Connect (Connect env) = True"
| "is_Connect _ = False"

subsection \<open>Concrete inputs\<close>

definition example_config :: config where
  "example_config =
     \<lparr> port = 3000, concurrency = 2, cluster_metrics_port = 3001,
       disable_mongodb_autoindexing = False, disable_client_routes = False,
       metrics_username = Some ''admin'', metrics_password = Some ''secret'' \<rparr>"

definition example_server :: server where
  "example_server = new_Server example_config 1 2"

text \<open>Every collaborator succeeds.\<close>

definition connect_ok :: connect_env where
  "connect_ok =
     \<lparr> i18n_load_result = Inr (), createMongoDB_result = Inr 10,
       createAugmentedRedisClient_result = Inr 11, createRedisClient_result = Inr 12,
       new_TenantCache_result = Inr 13, primeAll_result = Inr (),
       createQueue_result = Inr \<lparr> mailer = 20, scraper = 21 \<rparr>,
       collectDefaultMetrics_result = Inr () \<rparr>"

text \<open>The tenant store is unreachable: \<open>primeAll\<close> raises.\<close>

definition connect_prime_fails :: connect_env where
  "connect_prime_fails = connect_ok \<lparr> primeAll_result := Inl (Error ''store unreachable'') \<rparr>"

definition process_ok :: process_env where
  "process_ok =
     \<lparr> isMaster = True, ensureIndexes_result = Inr (), mailer_process_result = Inr (),
       scraper_process_result = Inr (), new_AggregatorRegistry_result = Inr (),
       metrics_listenAndServe_result = Inr 30 \<rparr>"

definition start_ok :: start_env where
  "start_ok =
     \<lparr> createJWTSigningConfig_result = Inr 40, createApp_result = Inr 41,
       listenAndServe_result = Inr 42 \<rparr>"

section \<open>Properties\<close>

lemmas io_defs = io_return_def io_throw_def io_bind_def io_this_def io_assign_def io_log_def
  io_call_def io_result_def io_state_def io_trace_def

subsection \<open>The two flags\<close>

text \<open>
  \<open>connected\<close> is set by \<open>connect\<close> and \<open>processing\<close> by \<open>process\<close>; no method ever
  resets either, whatever the outcome of the call.
\<close>

lemma connect_sets_connected: "connected (io_state (connect env s))"
  by (simp add: connect_def io_defs split: sum.splits)

lemma process_keeps_connected: "connected (io_state (process env s)) = connected s"
  by (simp add: process_def io_defs Let_def split: sum.splits option.splits)

lemma start_keeps_connected: "connected (io_state (start parent env s)) = connected s"
  by (simp add: start_def io_defs Let_def split: sum.splits option.splits)

lemma connect_keeps_processing: "processing (io_state (connect env s)) = processing s"
  by (simp add: connect_def io_defs split: sum.splits)

lemma start_keeps_processing: "processing (io_state (start parent env s)) = processing s"
  by (simp add: start_def io_defs Let_def split: sum.splits option.splits)

lemma process_sets_processing: "processing (io_state (process env s))"
  by (simp add: process_def io_defs Let_def split: sum.splits option.splits)

lemma exec_connected: "connected s \<Longrightarrow> connected (io_state (exec a s))"
  by (cases a) (simp_all add: connect_sets_connected process_keeps_connected start_keeps_connected)

lemma exec_processing: "processing s \<Longrightarrow> processing (io_state (exec a s))"
  by (cases a) (simp_all add: connect_keeps_processing process_sets_processing start_keeps_processing)

lemma run_Cons:
  "run (a # as) s =
     (fst (run as (io_state (exec a s))), io_trace (exec a s) @ snd (run as (io_state (exec a s))))"
  by (simp add: io_state_def io_trace_def split: prod.splits)

lemma run_connected: "connected s \<Longrightarrow> connected (fst (run ops s))"
  by (induction ops arbitrary: s) (simp_all add: run_Cons exec_connected del: run.simps(2))

lemma run_processing: "processing s \<Longrightarrow> processing (fst (run ops s))"
  by (induction ops arbitrary: s) (simp_all add: run_Cons exec_processing del: run.simps(2))

subsection \<open>The guards\<close>

lemma connect_when_connected:
  "connected s \<Longrightarrow> connect env s = (Inl (Error ''server has already connected''), s, [])"
  by (simp add: connect_def io_defs)

lemma process_when_processing:
  "processing s \<Longrightarrow> process env s = (Inl (Error ''server has already processing''), s, [])"
  by (simp add: process_def io_defs)

lemma start_when_not_connected:
  "\<not> connected s \<Longrightarrow> start parent env s = (Inl (Error ''server has not connected yet''), s, [])"
  by (simp add: start_def io_defs)

subsection \<open>Order of priming and queue creation\<close>

text \<open>
  C1. In every run of \<open>connect\<close> that succeeds, \<open>createQueue\<close> is called, and it is called
  only after \<open>primeAll\<close> has returned: the trace of the run is the full sequence of calls
  in source order, with \<open>Returned primeAll\<close> immediately before the call of \<open>createQueue\<close>.
\<close>

theorem connect_primes_before_createQueue:
  assumes "io_result (connect env s) = Inr u"
  shows "only_after (\<lambda>e. e = Returned primeAll) is_createQueue (io_trace (connect env s))
       \<and> (\<exists>e\<in>set (io_trace (connect env s)). is_createQueue e)
       \<and> (\<exists>db rc tc. io_trace (connect env s) =
            [Called i18n_load, Returned i18n_load,
             Called createMongoDB, Returned createMongoDB,
             Called createAugmentedRedisClient, Returned createAugmentedRedisClient,
             Called createRedisClient, Returned createRedisClient,
             Called (new_TenantCache (Some db) rc), Returned (new_TenantCache (Some db) rc),
             Called primeAll, Returned primeAll,
             Called (createQueue (Some db) (Some tc) (i18n s)),
             Returned (createQueue (Some db) (Some tc) (i18n s)),
             Called collectDefaultMetrics, Returned collectDefaultMetrics])"
  using assms
  by (auto simp add: connect_def io_defs split: sum.splits if_splits)

theorem connect_primes_before_createQueue_witness:
  "io_result (connect connect_ok example_server) = Inr ()
   \<and> only_after (\<lambda>e. e = Returned primeAll) is_createQueue
        (io_trace (connect connect_ok example_server))
   \<and> (\<exists>e\<in>set (io_trace (connect connect_ok example_server)). is_createQueue e)"
proof -
  have h: "io_result (connect connect_ok example_server) = Inr ()"
    by (simp add: connect_def io_defs connect_ok_def example_server_def new_Server_def)
  from connect_primes_before_createQueue [OF h] h show ?thesis by blast
qed

subsection \<open>Double invocation of connect and process\<close>

text \<open>
  C2. Once \<open>connect\<close> has been invoked on a server (whatever its outcome, and whatever
  methods the caller invoked since), another \<open>connect\<close> throws
  \<open>server has already connected\<close>, changes no field and makes no call; the same for
  \<open>process\<close> and \<open>server has already processing\<close>. The flag is assigned before the first
  await, so this is also the state a second invocation finds while the first is suspended.
\<close>

theorem double_invocation_throws:
  "connect env2 (fst (run (Connect env1 # ops) s))
     = (Inl (Error ''server has already connected''), fst (run (Connect env1 # ops) s), [])
   \<and> process penv2 (fst (run (Process penv1 # ops) s))
     = (Inl (Error ''server has already processing''), fst (run (Process penv1 # ops) s), [])
   \<and> connect env2 (s\<lparr>connected := True\<rparr>)
     = (Inl (Error ''server has already connected''), s\<lparr>connected := True\<rparr>, [])
   \<and> process penv2 (s\<lparr>processing := True\<rparr>)
     = (Inl (Error ''server has already processing''), s\<lparr>processing := True\<rparr>, [])"
proof -
  have c: "connected (fst (run (Connect env1 # ops) s))"
    unfolding run_Cons by (simp add: run_connected connect_sets_connected)
  have p: "processing (fst (run (Process penv1 # ops) s))"
    unfolding run_Cons by (simp add: run_processing process_sets_processing)
  show ?thesis
    using c p by (simp add: connect_when_connected process_when_processing)
qed

subsection \<open>start has no guard against a second call\<close>

text \<open>
  C3 (the claim as stated fails). On the example server, after a successful \<open>connect\<close>
  and a successful \<open>start\<close>, a second \<open>start\<close> whose collaborators succeed returns
  normally and calls \<open>listenAndServe\<close> again: \<open>start\<close> has the guard
  \<open>server has not connected yet\<close> and no other.
\<close>

theorem second_start_binds_again:
  "io_result (connect connect_ok example_server) = Inr ()
   \<and> io_result (start None start_ok (io_state (connect connect_ok example_server))) = Inr ()
   \<and> io_result (start None start_ok
        (io_state (start None start_ok (io_state (connect connect_ok example_server))))) = Inr ()
   \<and> Called (listenAndServe (App 41) 3000) \<in> set (io_trace (start None start_ok
        (io_state (start None start_ok (io_state (connect connect_ok example_server))))))"
  by (simp add: connect_def start_def io_defs Let_def connect_ok_def start_ok_def example_server_def
        example_config_def new_Server_def)

text \<open>
  C3 (as amended). \<open>start\<close> has no guard against a second call. On a connected server
  whose task queues exist, every call of \<open>start\<close>, a second one included, runs its body:
  it calls \<open>createJWTSigningConfig\<close>; when that returns it calls \<open>createApp\<close> with the
  fields of the server; when that returns it calls \<open>listenAndServe\<close> with the
  application and the configured port; when that returns it assigns \<open>httpServer\<close> and
  returns. An error it raises is one that a collaborator raised. It leaves \<open>connected\<close>
  and \<open>tasks\<close> as they were, so the next call is in the same position.
\<close>

theorem start_runs_on_every_call:
  assumes "connected s" and "tasks s = Some q"
  shows "(createJWTSigningConfig_result env = Inr sc \<and> createApp_result env = Inr a
            \<and> listenAndServe_result env = Inr h \<longrightarrow>
          io_result (start parent env s) = Inr ()
          \<and> io_state (start parent env s) = s\<lparr>httpServer := Some h\<rparr>
          \<and> (\<exists>opts. Called (createApp opts) \<in> set (io_trace (start parent env s)))
          \<and> Called (listenAndServe (App a) (port (config s))) \<in> set (io_trace (start parent env s)))
       \<and> (io_result (start parent env s) = Inl e \<longrightarrow>
            createJWTSigningConfig_result env = Inl e \<or> createApp_result env = Inl e
            \<or> listenAndServe_result env = Inl e)
       \<and> connected (io_state (start parent env s))
       \<and> tasks (io_state (start parent env s)) = Some q
       \<and> (\<exists>rest. io_trace (start parent env s) = Called createJWTSigningConfig # rest)
       \<and> (createJWTSigningConfig_result env = Inr sc \<longrightarrow>
            (\<exists>rest. io_trace (start parent env s) =
               [Called createJWTSigningConfig, Returned createJWTSigningConfig,
                Called (createApp
                  \<lparr> app_parent = (case parent of Some x \<Rightarrow> x | None \<Rightarrow> parentApp s),
                    app_mongo = mongo s, app_redis = redis s, app_signingConfig = sc,
                    app_tenantCache = tenantCache s, app_config = config s,
                    app_schema = schema s, app_i18n = i18n s,
                    app_mailerQueue = mailer q, app_scraperQueue = scraper q,
                    app_metrics = (concurrency (config s) = 1),
                    app_disableClientRoutes = disable_client_routes (config s) \<rparr>)] @ rest))
       \<and> (createJWTSigningConfig_result env = Inr sc \<and> createApp_result env = Inr a \<longrightarrow>
            Called (listenAndServe (App a) (port (config s))) \<in> set (io_trace (start parent env s)))
       \<and> (createJWTSigningConfig_result env = Inr sc \<and> createApp_result env = Inr a
            \<and> listenAndServe_result env = Inr h \<longrightarrow>
            start parent env s =
              (Inr (), s\<lparr>httpServer := Some h\<rparr>,
               [Called createJWTSigningConfig, Returned createJWTSigningConfig,
                Called (createApp
                  \<lparr> app_parent = (case parent of Some x \<Rightarrow> x | None \<Rightarrow> parentApp s),
                    app_mongo = mongo s, app_redis = redis s, app_signingConfig = sc,
                    app_tenantCache = tenantCache s, app_config = config s,
                    app_schema = schema s, app_i18n = i18n s,
                    app_mailerQueue = mailer q, app_scraperQueue = scraper q,
                    app_metrics = (concurrency (config s) = 1),
                    app_disableClientRoutes = disable_client_routes (config s) \<rparr>),
                Returned (createApp
                  \<lparr> app_parent = (case parent of Some x \<Rightarrow> x | None \<Rightarrow> parentApp s),
                    app_mongo = mongo s, app_redis = redis s, app_signingConfig = sc,
                    app_tenantCache = tenantCache s, app_config = config s,
                    app_schema = schema s, app_i18n = i18n s,
                    app_mailerQueue = mailer q, app_scraperQueue = scraper q,
                    app_metrics = (concurrency (config s) = 1),
                    app_disableClientRoutes = disable_client_routes (config s) \<rparr>),
                Called (listenAndServe (App a) (port (config s))),
                Returned (listenAndServe (App a) (port (config s))),
                Log ''now listening'']))"
proof -
  have old: "(createJWTSigningConfig_result env = Inr sc \<and> createApp_result env = Inr a
            \<and> listenAndServe_result env = Inr h \<longrightarrow>
          io_result (start parent env s) = Inr ()
          \<and> io_state (start parent env s) = s\<lparr>httpServer := Some h\<rparr>
          \<and> (\<exists>opts. Called (createApp opts) \<in> set (io_trace (start parent env s)))
          \<and> Called (listenAndServe (App a) (port (config s))) \<in> set (io_trace (start parent env s)))
       \<and> (io_result (start parent env s) = Inl e \<longrightarrow>
            createJWTSigningConfig_result env = Inl e \<or> createApp_result env = Inl e
            \<or> listenAndServe_result env = Inl e)
       \<and> connected (io_state (start parent env s))
       \<and> tasks (io_state (start parent env s)) = Some q"
    using assms by (auto simp add: start_def io_defs Let_def split: sum.splits)
  have jwt: "\<exists>rest. io_trace (start parent env s) = Called createJWTSigningConfig # rest"
    using assms by (simp add: start_def io_defs Let_def split: sum.splits)
  have app: "createJWTSigningConfig_result env = Inr sc \<longrightarrow>
            (\<exists>rest. io_trace (start parent env s) =
               [Called createJWTSigningConfig, Returned createJWTSigningConfig,
                Called (createApp
                  \<lparr> app_parent = (case parent of Some x \<Rightarrow> x | None \<Rightarrow> parentApp s),
                    app_mongo = mongo s, app_redis = redis s, app_signingConfig = sc,
                    app_tenantCache = tenantCache s, app_config = config s,
                    app_schema = schema s, app_i18n = i18n s,
                    app_mailerQueue = mailer q, app_scraperQueue = scraper q,
                    app_metrics = (concurrency (config s) = 1),
                    app_disableClientRoutes = disable_client_routes (config s) \<rparr>)] @ rest)"
    using assms by (simp add: start_def io_defs Let_def split: sum.splits)
  have listen: "createJWTSigningConfig_result env = Inr sc \<and> createApp_result env = Inr a \<longrightarrow>
            Called (listenAndServe (App a) (port (config s))) \<in> set (io_trace (start parent env s))"
    using assms by (simp add: start_def io_defs Let_def split: sum.splits)
  have all: "createJWTSigningConfig_result env = Inr sc \<and> createApp_result env = Inr a
            \<and> listenAndServe_result env = Inr h \<longrightarrow>
            start parent env s =
              (Inr (), s\<lparr>httpServer := Some h\<rparr>,
               [Called createJWTSigningConfig, Returned createJWTSigningConfig,
                Called (createApp
                  \<lparr> app_parent = (case parent of Some x \<Rightarrow> x | None \<Rightarrow> parentApp s),
                    app_mongo = mongo s, app_redis = redis s, app_signingConfig = sc,
                    app_tenantCache = tenantCache s, app_config = config s,
                    app_schema = schema s, app_i18n = i18n s,
                    app_mailerQueue = mailer q, app_scraperQueue = scraper q,
                    app_metrics = (concurrency (config s) = 1),
                    app_disableClientRoutes = disable_client_routes (config s) \<rparr>),
                Returned (createApp
                  \<lparr> app_parent = (case parent of Some x \<Rightarrow> x | None \<Rightarrow> parentApp s),
                    app_mongo = mongo s, app_redis = redis s, app_signingConfig = sc,
                    app_tenantCache = tenantCache s, app_config = config s,
                    app_schema = schema s, app_i18n = i18n s,
                    app_mailerQueue = mailer q, app_scraperQueue = scraper q,
                    app_metrics = (concurrency (config s) = 1),
                    app_disableClientRoutes = disable_client_routes (config s) \<rparr>),
                Called (listenAndServe (App a) (port (config s))),
                Returned (listenAndServe (App a) (port (config s))),
                Log ''now listening''])"
    using assms by (simp add: start_def io_defs Let_def)
  from old jwt app listen all show ?thesis
    by (elim conjE) (intro conjI)
qed

theorem start_runs_on_every_call_witness:
  "connected (io_state (start None start_ok (io_state (connect connect_ok example_server))))
   \<and> tasks (io_state (start None start_ok (io_state (connect connect_ok example_server))))
       = Some \<lparr> mailer = 20, scraper = 21 \<rparr>
   \<and> createJWTSigningConfig_result start_ok = Inr 40 \<and> createApp_result start_ok = Inr 41
   \<and> listenAndServe_result start_ok = Inr 42
   \<and> io_result (start None start_ok
        (io_state (start None start_ok (io_state (connect connect_ok example_server))))) = Inr ()
   \<and> (\<exists>rest. io_trace (start None start_ok
        (io_state (start None start_ok (io_state (connect connect_ok example_server)))))
          = Called createJWTSigningConfig # rest)
   \<and> (\<exists>opts. Called (createApp opts) \<in> set (io_trace (start None start_ok
        (io_state (start None start_ok (io_state (connect connect_ok example_server)))))))
   \<and> Called (listenAndServe (App 41)
        (port (config (io_state (start None start_ok (io_state (connect connect_ok example_server)))))))
       \<in> set (io_trace (start None start_ok
        (io_state (start None start_ok (io_state (connect connect_ok example_server))))))"
proof -
  let ?s = "io_state (start None start_ok (io_state (connect connect_ok example_server)))"
  have h1: "connected ?s"
    by (simp add: connect_def start_def io_defs Let_def connect_ok_def start_ok_def example_server_def
        example_config_def new_Server_def)
  have h2: "tasks ?s = Some \<lparr> mailer = 20, scraper = 21 \<rparr>"
    by (simp add: connect_def start_def io_defs Let_def connect_ok_def start_ok_def example_server_def
        example_config_def new_Server_def)
  have h3: "createJWTSigningConfig_result start_ok = Inr 40 \<and> createApp_result start_ok = Inr 41
   \<and> listenAndServe_result start_ok = Inr 42"
    by (simp add: start_ok_def)
  note t = start_runs_on_every_call [OF h1 h2, of start_ok 40 41 42 None]
  have ok: "io_result (start None start_ok ?s) = Inr ()
          \<and> io_state (start None start_ok ?s) = ?s\<lparr>httpServer := Some 42\<rparr>
          \<and> (\<exists>opts. Called (createApp opts) \<in> set (io_trace (start None start_ok ?s)))
          \<and> Called (listenAndServe (App 41) (port (config ?s))) \<in> set (io_trace (start None start_ok ?s))"
    using t [THEN conjunct1, THEN mp, OF h3] .
  have jwt: "\<exists>rest. io_trace (start None start_ok ?s) = Called createJWTSigningConfig # rest"
    using t [THEN conjunct2, THEN conjunct2, THEN conjunct2, THEN conjunct2, THEN conjunct1] .
  from h1 h2 h3 ok jwt show ?thesis
    by (elim conjE) (intro conjI)
qed

subsection \<open>Failure of priming\<close>

text \<open>
  C4. If \<open>primeAll\<close> raises, \<open>connect\<close> does not succeed and never calls
  \<open>createQueue\<close>; when the run gets as far as calling \<open>primeAll\<close>, the outcome of
  \<open>connect\<close> is the very error that \<open>primeAll\<close> raised, and \<open>tasks\<close> is left unassigned.
\<close>

theorem connect_propagates_prime_failure:
  assumes "primeAll_result env = Inl e"
  shows "(\<forall>ev\<in>set (io_trace (connect env s)). \<not> is_createQueue ev)
       \<and> (\<exists>e'. io_result (connect env s) = Inl e')
       \<and> (Called primeAll \<in> set (io_trace (connect env s)) \<longrightarrow> io_result (connect env s) = Inl e)
       \<and> tasks (io_state (connect env s)) = tasks s"
  using assms
  by (simp add: connect_def io_defs split: sum.splits)

theorem connect_propagates_prime_failure_witness:
  "primeAll_result connect_prime_fails = Inl (Error ''store unreachable'')
   \<and> Called primeAll \<in> set (io_trace (connect connect_prime_fails example_server))
   \<and> io_result (connect connect_prime_fails example_server) = Inl (Error ''store unreachable'')
   \<and> tasks (io_state (connect connect_prime_fails example_server)) = tasks example_server"
proof -
  have h: "primeAll_result connect_prime_fails = Inl (Error ''store unreachable'')"
    by (simp add: connect_prime_fails_def connect_ok_def)
  have c: "Called primeAll \<in> set (io_trace (connect connect_prime_fails example_server))"
    by (simp add: connect_def io_defs connect_prime_fails_def connect_ok_def example_server_def
        new_Server_def)
  from connect_propagates_prime_failure [OF h, of example_server] h c
  show ?thesis by blast
qed

subsection \<open>start before connect\<close>

text \<open>
  Serving calls (\<open>createApp\<close>, \<open>listenAndServe\<close>) need \<open>tasks\<close>, which only a
  \<open>connect\<close> that got past \<open>primeAll\<close> assigns.
\<close>

lemma only_after_append:
  "only_after P Q (t1 @ t2) =
     (only_after P Q t1 \<and> ((\<exists>e\<in>set t1. P e) \<or> only_after P Q t2))"
  by (induction t1) auto

lemma only_after_none: "\<forall>e\<in>set t. \<not> Q e \<Longrightarrow> only_after P Q t"
  by (induction t) auto

lemma connect_not_serving: "\<forall>e\<in>set (io_trace (connect env s)). \<not> is_serving e"
  by (simp add: connect_def io_defs split: sum.splits)

lemma connect_tasks_primed:
  assumes "tasks s = None" and "tasks (io_state (connect env s)) \<noteq> None"
  shows "Called primeAll \<in> set (io_trace (connect env s))
       \<and> Returned primeAll \<in> set (io_trace (connect env s))"
  using assms by (simp add: connect_def io_defs split: sum.splits if_splits)

lemma process_keeps_tasks: "tasks (io_state (process env s)) = tasks s"
  by (simp add: process_def io_defs Let_def split: sum.splits option.splits)

lemma start_keeps_tasks: "tasks (io_state (start parent env s)) = tasks s"
  by (simp add: start_def io_defs Let_def split: sum.splits option.splits)

lemma process_without_tasks:
  "tasks s = None \<Longrightarrow> \<forall>e\<in>set (io_trace (process env s)). \<not> is_serving e"
  by (simp add: process_def io_defs Let_def split: sum.splits)

lemma start_without_tasks:
  "tasks s = None \<Longrightarrow> \<forall>e\<in>set (io_trace (start parent env s)). \<not> is_serving e"
  by (simp add: start_def io_defs Let_def split: sum.splits)

lemma exec_without_tasks:
  assumes "tasks s = None"
  shows "\<forall>e\<in>set (io_trace (exec a s)). \<not> is_serving e"
  using assms
  by (cases a) (simp_all add: connect_not_serving process_without_tasks start_without_tasks)

lemma exec_tasks_primed:
  assumes "tasks s = None" and "tasks (io_state (exec a s)) \<noteq> None"
  shows "Called primeAll \<in> set (io_trace (exec a s))
       \<and> Returned primeAll \<in> set (io_trace (exec a s))"
  using assms
  by (cases a) (simp_all add: connect_tasks_primed process_keeps_tasks start_keeps_tasks)

lemma run_serving_only_after:
  assumes "P (Called primeAll) \<or> P (Returned primeAll)"
  shows "tasks s = None \<Longrightarrow> only_after P is_serving (snd (run ops s))"
proof (induction ops arbitrary: s)
  case Nil
  show ?case by simp
next
  case (Cons a as)
  have first: "only_after P is_serving (io_trace (exec a s))"
    using Cons.prems by (intro only_after_none exec_without_tasks)
  have rest: "(\<exists>e\<in>set (io_trace (exec a s)). P e)
            \<or> only_after P is_serving (snd (run as (io_state (exec a s))))"
  proof (cases "tasks (io_state (exec a s))")
    case None
    then show ?thesis using Cons.IH by blast
  next
    case (Some q)
    then have "tasks (io_state (exec a s)) \<noteq> None" by simp
    from exec_tasks_primed [OF Cons.prems this] assms show ?thesis by blast
  qed
  show ?case
    unfolding run_Cons using first rest by (simp add: only_after_append)
qed

lemma run_without_connect:
  "\<forall>a\<in>set ops. \<not> is_Connect a \<Longrightarrow> connected (fst (run ops s)) = connected s"
proof (induction ops arbitrary: s)
  case Nil
  show ?case by simp
next
  case (Cons a as)
  then have "connected (io_state (exec a s)) = connected s"
    by (cases a) (simp_all add: process_keeps_connected start_keeps_connected)
  with Cons show ?case unfolding run_Cons by simp
qed

text \<open>
  C5. On a server on which \<open>connect\<close> has never been called (the flag is unset; in
  particular a new server after any calls of \<open>process\<close> and \<open>start\<close>), \<open>start\<close> throws
  \<open>server has not connected yet\<close>, with no call made and no field changed. So in every
  history of a new server, \<open>createApp\<close> and \<open>listenAndServe\<close> are called only after
  \<open>primeAll\<close> was called (indeed only after it returned).
\<close>

theorem start_requires_connect:
  "(\<not> connected s \<longrightarrow>
      start parent env s = (Inl (Error ''server has not connected yet''), s, []))
   \<and> ((\<forall>a\<in>set ops. \<not> is_Connect a) \<longrightarrow>
        start parent env (fst (run ops (new_Server cfg sch i)))
          = (Inl (Error ''server has not connected yet''), fst (run ops (new_Server cfg sch i)), []))
   \<and> only_after (\<lambda>e. e = Called primeAll) is_serving (snd (run ops' (new_Server cfg sch i)))
   \<and> only_after (\<lambda>e. e = Returned primeAll) is_serving (snd (run ops' (new_Server cfg sch i)))"
proof -
  have fresh: "\<not> connected (new_Server cfg sch i)" "tasks (new_Server cfg sch i) = None"
    by (simp_all add: new_Server_def)
  have a: "(\<forall>a\<in>set ops. \<not> is_Connect a) \<longrightarrow>
        \<not> connected (fst (run ops (new_Server cfg sch i)))"
    using fresh(1) by (simp add: run_without_connect)
  have b: "only_after (\<lambda>e. e = Called primeAll) is_serving (snd (run ops' (new_Server cfg sch i)))"
    by (rule run_serving_only_after) (simp_all add: fresh)
  have c: "only_after (\<lambda>e. e = Returned primeAll) is_serving (snd (run ops' (new_Server cfg sch i)))"
    by (rule run_serving_only_after) (simp_all add: fresh)
  show ?thesis
    using a b c by (simp add: start_when_not_connected)
qed

theorem start_requires_connect_witness:
  "\<not> connected example_server
   \<and> \<not> is_Connect (Process process_ok) \<and> \<not> is_Connect (Start None start_ok)
   \<and> start None start_ok example_server
       = (Inl (Error ''server has not connected yet''), example_server, [])
   \<and> io_result (start None start_ok
        (fst (run [Process process_ok, Start None start_ok] example_server)))
       = Inl (Error ''server has not connected yet'')"
proof -
  have h1: "\<not> connected example_server"
    by (simp add: example_server_def new_Server_def)
  have h2: "\<forall>a\<in>set [Process process_ok, Start None start_ok]. \<not> is_Connect a"
    by simp
  from start_requires_connect [of example_server None start_ok
      "[Process process_ok, Start None start_ok]" example_config 1 2 "[]"] h1 h2
  show ?thesis
    unfolding example_server_def [symmetric] by (simp add: io_result_def)
qed

subsection \<open>The cluster metrics server\<close>

lemma truthy_iff: "truthy x = (\<exists>u. x = Some u \<and> u \<noteq> [])"
  by (cases x) simp_all

text \<open>
  What a call of \<open>listenAndServe\<close> in \<open>process\<close> tells: the run got to the leader
  check, the check passed, and the application is the metrics server on the metrics port.
\<close>

lemma process_listen_only_if:
  assumes "Called (listenAndServe app p) \<in> set (io_trace (process env s))"
  shows "\<not> processing s
         \<and> (disable_mongodb_autoindexing (config s) \<or> ensureIndexes_result env = Inr ())
         \<and> tasks s \<noteq> None
         \<and> mailer_process_result env = Inr ()
         \<and> scraper_process_result env = Inr ()
         \<and> new_AggregatorRegistry_result env = Inr ()
         \<and> isMaster env \<and> 1 < concurrency (config s)
         \<and> p = cluster_metrics_port (config s)
         \<and> app = Express
             ([Use None accessLogger]
              @ (if truthy (metrics_username (config s)) \<and> truthy (metrics_password (config s))
                 then [Use (Some ''/cluster_metrics'')
                         (basicAuth (metrics_username (config s)) (metrics_password (config s)))]
                 else [])
              @ [Get ''/cluster_metrics'' [noCacheMiddleware, clusterMetricsHandler],
                 Use None notFoundMiddleware, Use None errorLogger, Use None JSONErrorHandler])"
  using assms
  by (simp add: process_def io_defs Let_def split: sum.splits option.splits if_splits)

lemma process_listen_if:
  assumes "\<not> processing s"
      and "disable_mongodb_autoindexing (config s) \<or> ensureIndexes_result env = Inr ()"
      and "tasks s = Some q"
      and "mailer_process_result env = Inr ()"
      and "scraper_process_result env = Inr ()"
      and "new_AggregatorRegistry_result env = Inr ()"
      and "isMaster env" and "1 < concurrency (config s)"
  shows "Called (listenAndServe
           (Express
             ([Use None accessLogger]
              @ (if truthy (metrics_username (config s)) \<and> truthy (metrics_password (config s))
                 then [Use (Some ''/cluster_metrics'')
                         (basicAuth (metrics_username (config s)) (metrics_password (config s)))]
                 else [])
              @ [Get ''/cluster_metrics'' [noCacheMiddleware, clusterMetricsHandler],
                 Use None notFoundMiddleware, Use None errorLogger, Use None JSONErrorHandler]))
           (cluster_metrics_port (config s)))
         \<in> set (io_trace (process env s))"
  using assms
  by (cases "disable_mongodb_autoindexing (config s)")
     (simp_all add: process_def io_defs Let_def split: sum.splits)

text \<open>
  C6. \<open>process\<close> calls \<open>listenAndServe\<close> exactly when it gets to the leader check (it
  was not processing already and nothing before the check raised), \<open>cluster.isMaster\<close>
  holds, the configured concurrency is greater than 1 and the registry is constructed; in
  every other case it starts no server. The server it starts listens on
  \<open>cluster_metrics_port\<close> and serves \<open>/cluster_metrics\<close>.
\<close>

theorem metrics_server_iff_leader:
  "((\<exists>app p. Called (listenAndServe app p) \<in> set (io_trace (process env s)))
      = (\<not> processing s
         \<and> (disable_mongodb_autoindexing (config s) \<or> ensureIndexes_result env = Inr ())
         \<and> tasks s \<noteq> None
         \<and> mailer_process_result env = Inr ()
         \<and> scraper_process_result env = Inr ()
         \<and> new_AggregatorRegistry_result env = Inr ()
         \<and> isMaster env \<and> 1 < concurrency (config s)))
   \<and> (\<forall>app p. Called (listenAndServe app p) \<in> set (io_trace (process env s)) \<longrightarrow>
         p = cluster_metrics_port (config s)
         \<and> (\<exists>ls. app = Express ls
              \<and> Get ''/cluster_metrics'' [noCacheMiddleware, clusterMetricsHandler] \<in> set ls))"
proof -
  have only_if: "\<not> processing s
         \<and> (disable_mongodb_autoindexing (config s) \<or> ensureIndexes_result env = Inr ())
         \<and> tasks s \<noteq> None
         \<and> mailer_process_result env = Inr ()
         \<and> scraper_process_result env = Inr ()
         \<and> new_AggregatorRegistry_result env = Inr ()
         \<and> isMaster env \<and> 1 < concurrency (config s)"
    if "\<exists>app p. Called (listenAndServe app p) \<in> set (io_trace (process env s))"
    using that process_listen_only_if by blast
  have when_leader: "\<exists>app p. Called (listenAndServe app p) \<in> set (io_trace (process env s))"
    if "\<not> processing s
         \<and> (disable_mongodb_autoindexing (config s) \<or> ensureIndexes_result env = Inr ())
         \<and> tasks s \<noteq> None
         \<and> mailer_process_result env = Inr ()
         \<and> scraper_process_result env = Inr ()
         \<and> new_AggregatorRegistry_result env = Inr ()
         \<and> isMaster env \<and> 1 < concurrency (config s)"
  proof -
    from that obtain q where "tasks s = Some q" by blast
    with that process_listen_if [of s env q] show ?thesis by blast
  qed
  have served: "p = cluster_metrics_port (config s)
         \<and> (\<exists>ls. app = Express ls
              \<and> Get ''/cluster_metrics'' [noCacheMiddleware, clusterMetricsHandler] \<in> set ls)"
    if "Called (listenAndServe app p) \<in> set (io_trace (process env s))" for app p
    using process_listen_only_if [OF that] by simp
  from only_if when_leader served show ?thesis by blast
qed

theorem metrics_server_iff_leader_witness:
  "Called (listenAndServe
      (Express [Use None accessLogger,
                Use (Some ''/cluster_metrics'') (basicAuth (Some ''admin'') (Some ''secret'')),
                Get ''/cluster_metrics'' [noCacheMiddleware, clusterMetricsHandler],
                Use None notFoundMiddleware, Use None errorLogger, Use None JSONErrorHandler])
      3001) \<in> set (io_trace (process process_ok (io_state (connect connect_ok example_server))))
   \<and> isMaster process_ok
   \<and> 1 < concurrency (config (io_state (connect connect_ok example_server)))
   \<and> 3001 = cluster_metrics_port (config (io_state (connect connect_ok example_server)))"
proof -
  let ?s = "io_state (connect connect_ok example_server)"
  let ?app = "Express [Use None accessLogger,
                Use (Some ''/cluster_metrics'') (basicAuth (Some ''admin'') (Some ''secret'')),
                Get ''/cluster_metrics'' [noCacheMiddleware, clusterMetricsHandler],
                Use None notFoundMiddleware, Use None errorLogger, Use None JSONErrorHandler]"
  have h: "Called (listenAndServe ?app 3001) \<in> set (io_trace (process process_ok ?s))"
    by (simp add: connect_def process_def io_defs Let_def process_ok_def connect_ok_def
        example_server_def example_config_def new_Server_def)
  note both = metrics_server_iff_leader [of process_ok ?s]
  have ex: "\<exists>app p. Called (listenAndServe app p) \<in> set (io_trace (process process_ok ?s))"
    using h by (intro exI)
  have leader: "isMaster process_ok \<and> 1 < concurrency (config ?s)"
    using both [THEN conjunct1, THEN iffD1, OF ex] by (elim conjE) (intro conjI)
  have p: "3001 = cluster_metrics_port (config ?s)"
    using both [THEN conjunct2, rule_format, OF h] by (elim conjE)
  from h leader p show ?thesis by (intro conjI) (elim conjE | assumption)+
qed

text \<open>
  C7. When \<open>process\<close> gets past its guard and the indexing step, it calls the mailer
  queue's \<open>process()\<close> and then the scraper queue's \<open>process()\<close>, whatever
  \<open>cluster.isMaster\<close> (\<open>b\<close>) and the configured concurrency (\<open>c\<close>) are: the trace up to
  the second launch is the same for all of them, and what the leader check adds comes after.
\<close>

theorem process_launches_both_queues:
  assumes "\<not> processing s"
      and "disable_mongodb_autoindexing (config s) \<or> ensureIndexes_result env = Inr ()"
      and "tasks s = Some q"
      and "mailer_process_result env = Inr ()"
  shows "\<exists>rest. io_trace (process (env\<lparr>isMaster := b\<rparr>) (s\<lparr>config := (config s)\<lparr>concurrency := c\<rparr>\<rparr>))
       = (if disable_mongodb_autoindexing (config s)
          then [Log ''mongodb autoindexing is disabled, skipping indexing'']
          else [Log ''mongodb autoindexing is enabled, starting indexing'',
                Called (ensureIndexes (mongo s)), Returned (ensureIndexes (mongo s))])
         @ [Called (queue_process (mailer q)), Returned (queue_process (mailer q)),
            Called (queue_process (scraper q))]
         @ rest"
  using assms
  by (cases "disable_mongodb_autoindexing (config s)")
     (simp_all add: process_def io_defs Let_def split: sum.splits)

theorem process_launches_both_queues_witness:
  "\<not> processing (io_state (connect connect_ok example_server))
   \<and> tasks (io_state (connect connect_ok example_server)) = Some \<lparr> mailer = 20, scraper = 21 \<rparr>
   \<and> mailer_process_result process_ok = Inr ()
   \<and> (\<exists>rest. io_trace (process (process_ok\<lparr>isMaster := False\<rparr>)
         ((io_state (connect connect_ok example_server))
            \<lparr>config := (config (io_state (connect connect_ok example_server)))\<lparr>concurrency := 1\<rparr>\<rparr>))
       = [Log ''mongodb autoindexing is enabled, starting indexing'',
          Called (ensureIndexes (Some 10)), Returned (ensureIndexes (Some 10)),
          Called (queue_process 20), Returned (queue_process 20), Called (queue_process 21)] @ rest)"
proof -
  let ?s = "io_state (connect connect_ok example_server)"
  have h1: "\<not> processing ?s"
    by (simp add: connect_def io_defs connect_ok_def example_server_def new_Server_def)
  have h2: "disable_mongodb_autoindexing (config ?s) \<or> ensureIndexes_result process_ok = Inr ()"
    by (simp add: process_ok_def)
  have h3: "tasks ?s = Some \<lparr> mailer = 20, scraper = 21 \<rparr>"
    by (simp add: connect_def io_defs connect_ok_def example_server_def new_Server_def)
  have h4: "mailer_process_result process_ok = Inr ()"
    by (simp add: process_ok_def)
  have d: "\<not> disable_mongodb_autoindexing (config ?s)" "mongo ?s = Some 10"
    by (simp_all add: connect_def io_defs connect_ok_def example_server_def example_config_def
        new_Server_def)
  from process_launches_both_queues [OF h1 h2 h3 h4, of False 1] h1 h3 h4 d
  show ?thesis by simp
qed

text \<open>
  C8. The \<open>/cluster_metrics\<close> handler: when aggregation reports an error it calls
  \<open>next(err)\<close> and nothing else; when aggregation succeeds it sets \<open>Content-Type\<close> to the
  registry's content type and sends the metrics. It sends a body exactly when there is no
  error.
\<close>

theorem cluster_metrics_handler_error_or_metrics:
  "cluster_metrics_handler (reg\<lparr>clusterMetrics := (Some e, m)\<rparr>) = [next_err e]
   \<and> cluster_metrics_handler (reg\<lparr>clusterMetrics := (None, m)\<rparr>)
       = [res_set ''Content-Type'' (contentType reg), res_send m]
   \<and> ((\<exists>b. res_send b \<in> set (cluster_metrics_handler reg)) = (fst (clusterMetrics reg) = None))
   \<and> ((\<exists>x. next_err x \<in> set (cluster_metrics_handler reg)) = (fst (clusterMetrics reg) \<noteq> None))"
proof -
  obtain err m' where cm: "clusterMetrics reg = (err, m')"
    by (cases "clusterMetrics reg")
  show ?thesis
    by (cases err) (simp_all add: cluster_metrics_handler_def clusterMetricsCallback_def cm)
qed

text \<open>
  The layers of the metrics server that was passed to \<open>listenAndServe\<close>.
\<close>

lemma metrics_server_layers:
  assumes "Called (listenAndServe (Express ls) p) \<in> set (io_trace (process env s))"
  shows "ls = [Use None accessLogger]
              @ (if truthy (metrics_username (config s)) \<and> truthy (metrics_password (config s))
                 then [Use (Some ''/cluster_metrics'')
                         (basicAuth (metrics_username (config s)) (metrics_password (config s)))]
                 else [])
              @ [Get ''/cluster_metrics'' [noCacheMiddleware, clusterMetricsHandler],
                 Use None notFoundMiddleware, Use None errorLogger, Use None JSONErrorHandler]
       \<and> ((Use (Some ''/cluster_metrics'')
              (basicAuth (metrics_username (config s)) (metrics_password (config s))) \<in> set ls)
            = (\<exists>u pw. metrics_username (config s) = Some u \<and> u \<noteq> []
                     \<and> metrics_password (config s) = Some pw \<and> pw \<noteq> []))
       \<and> ((\<exists>path u pw. Use path (basicAuth u pw) \<in> set ls)
            = (\<exists>u pw. metrics_username (config s) = Some u \<and> u \<noteq> []
                     \<and> metrics_password (config s) = Some pw \<and> pw \<noteq> []))
       \<and> (\<forall>path mws u pw. Get path mws \<in> set ls \<longrightarrow> basicAuth u pw \<notin> set mws)"
proof -
  let ?both = "truthy (metrics_username (config s)) \<and> truthy (metrics_password (config s))"
  have both: "?both = (\<exists>u pw. metrics_username (config s) = Some u \<and> u \<noteq> []
                     \<and> metrics_password (config s) = Some pw \<and> pw \<noteq> [])"
    by (auto simp add: truthy_iff)
  from process_listen_only_if [OF assms]
  have ls: "ls = [Use None accessLogger]
              @ (if ?both
                 then [Use (Some ''/cluster_metrics'')
                         (basicAuth (metrics_username (config s)) (metrics_password (config s)))]
                 else [])
              @ [Get ''/cluster_metrics'' [noCacheMiddleware, clusterMetricsHandler],
                 Use None notFoundMiddleware, Use None errorLogger, Use None JSONErrorHandler]"
    by simp
  show ?thesis
  proof (cases ?both)
    case True
    with ls have "ls = [Use None accessLogger,
        Use (Some ''/cluster_metrics'')
          (basicAuth (metrics_username (config s)) (metrics_password (config s))),
        Get ''/cluster_metrics'' [noCacheMiddleware, clusterMetricsHandler],
        Use None notFoundMiddleware, Use None errorLogger, Use None JSONErrorHandler]"
      by simp
    with True both show ?thesis by auto
  next
    case False
    with ls have "ls = [Use None accessLogger,
        Get ''/cluster_metrics'' [noCacheMiddleware, clusterMetricsHandler],
        Use None notFoundMiddleware, Use None errorLogger, Use None JSONErrorHandler]"
      by simp
    with False both show ?thesis by auto
  qed
qed

text \<open>The log line of the branch taken at \<open>if (username && password)\<close>.\<close>

lemma process_auth_log:
  assumes "\<not> processing s"
      and "disable_mongodb_autoindexing (config s) \<or> ensureIndexes_result env = Inr ()"
      and "tasks s = Some q"
      and "mailer_process_result env = Inr ()"
      and "scraper_process_result env = Inr ()"
      and "new_AggregatorRegistry_result env = Inr ()"
      and "isMaster env" and "1 < concurrency (config s)"
  shows "(if truthy (metrics_username (config s)) \<and> truthy (metrics_password (config s))
          then Log ''adding authentication to metrics endpoint''
          else Log ''not adding authentication to metrics endpoint, credentials not provided'')
         \<in> set (io_trace (process env s))"
  using assms
  by (cases "disable_mongodb_autoindexing (config s)")
     (simp_all add: process_def io_defs Let_def split: sum.splits)

text \<open>
  C9. Whenever \<open>process\<close> gets to the leader check and passes it, it starts the metrics
  server, and: if \<open>metrics_username\<close> and \<open>metrics_password\<close> are both non-empty strings,
  the server has \<open>basicAuth(username, password)\<close> mounted on \<open>/cluster_metrics\<close> before the
  route (and the log says so); if either is missing or empty, the server has the route
  and no \<open>basicAuth\<close> layer. Conversely, in any metrics server that \<open>process\<close> passes to
  \<open>listenAndServe\<close>, a \<open>basicAuth\<close> layer is present exactly when both credentials are
  non-empty.
\<close>

theorem basicAuth_iff_credentials:
  "(Called (listenAndServe (Express ls) p) \<in> set (io_trace (process env s)) \<longrightarrow>
       ls = [Use None accessLogger]
              @ (if truthy (metrics_username (config s)) \<and> truthy (metrics_password (config s))
                 then [Use (Some ''/cluster_metrics'')
                         (basicAuth (metrics_username (config s)) (metrics_password (config s)))]
                 else [])
              @ [Get ''/cluster_metrics'' [noCacheMiddleware, clusterMetricsHandler],
                 Use None notFoundMiddleware, Use None errorLogger, Use None JSONErrorHandler]
       \<and> ((Use (Some ''/cluster_metrics'')
              (basicAuth (metrics_username (config s)) (metrics_password (config s))) \<in> set ls)
            = (\<exists>u pw. metrics_username (config s) = Some u \<and> u \<noteq> []
                     \<and> metrics_password (config s) = Some pw \<and> pw \<noteq> []))
       \<and> ((\<exists>path u pw. Use path (basicAuth u pw) \<in> set ls)
            = (\<exists>u pw. metrics_username (config s) = Some u \<and> u \<noteq> []
                     \<and> metrics_password (config s) = Some pw \<and> pw \<noteq> []))
       \<and> (\<forall>path mws u pw. Get path mws \<in> set ls \<longrightarrow> basicAuth u pw \<notin> set mws))
   \<and> (\<not> processing s
       \<and> (disable_mongodb_autoindexing (config s) \<or> ensureIndexes_result env = Inr ())
       \<and> tasks s = Some q
       \<and> mailer_process_result env = Inr ()
       \<and> scraper_process_result env = Inr ()
       \<and> new_AggregatorRegistry_result env = Inr ()
       \<and> isMaster env \<and> 1 < concurrency (config s)
       \<and> metrics_username (config s) = Some u \<and> u \<noteq> []
       \<and> metrics_password (config s) = Some pw \<and> pw \<noteq> [] \<longrightarrow>
         Called (listenAndServe
           (Express [Use None accessLogger,
                     Use (Some ''/cluster_metrics'') (basicAuth (Some u) (Some pw)),
                     Get ''/cluster_metrics'' [noCacheMiddleware, clusterMetricsHandler],
                     Use None notFoundMiddleware, Use None errorLogger, Use None JSONErrorHandler])
           (cluster_metrics_port (config s))) \<in> set (io_trace (process env s))
         \<and> Log ''adding authentication to metrics endpoint'' \<in> set (io_trace (process env s)))
   \<and> (\<not> processing s
       \<and> (disable_mongodb_autoindexing (config s) \<or> ensureIndexes_result env = Inr ())
       \<and> tasks s = Some q
       \<and> mailer_process_result env = Inr ()
       \<and> scraper_process_result env = Inr ()
       \<and> new_AggregatorRegistry_result env = Inr ()
       \<and> isMaster env \<and> 1 < concurrency (config s)
       \<and> \<not> (truthy (metrics_username (config s)) \<and> truthy (metrics_password (config s))) \<longrightarrow>
         Called (listenAndServe
           (Express [Use None accessLogger,
                     Get ''/cluster_metrics'' [noCacheMiddleware, clusterMetricsHandler],
                     Use None notFoundMiddleware, Use None errorLogger, Use None JSONErrorHandler])
           (cluster_metrics_port (config s))) \<in> set (io_trace (process env s))
         \<and> Log ''not adding authentication to metrics endpoint, credentials not provided''
             \<in> set (io_trace (process env s)))"
proof (intro conjI impI)
  assume "Called (listenAndServe (Express ls) p) \<in> set (io_trace (process env s))"
  note old = metrics_server_layers [OF this]
  from old show "ls = [Use None accessLogger]
              @ (if truthy (metrics_username (config s)) \<and> truthy (metrics_password (config s))
                 then [Use (Some ''/cluster_metrics'')
                         (basicAuth (metrics_username (config s)) (metrics_password (config s)))]
                 else [])
              @ [Get ''/cluster_metrics'' [noCacheMiddleware, clusterMetricsHandler],
                 Use None notFoundMiddleware, Use None errorLogger, Use None JSONErrorHandler]"
    by (elim conjE)
  from old show "(Use (Some ''/cluster_metrics'')
              (basicAuth (metrics_username (config s)) (metrics_password (config s))) \<in> set ls)
            = (\<exists>u pw. metrics_username (config s) = Some u \<and> u \<noteq> []
                     \<and> metrics_password (config s) = Some pw \<and> pw \<noteq> [])"
    by (elim conjE)
  from old show "(\<exists>path u pw. Use path (basicAuth u pw) \<in> set ls)
            = (\<exists>u pw. metrics_username (config s) = Some u \<and> u \<noteq> []
                     \<and> metrics_password (config s) = Some pw \<and> pw \<noteq> [])"
    by (elim conjE)
  from old show "\<forall>path mws u pw. Get path mws \<in> set ls \<longrightarrow> basicAuth u pw \<notin> set mws"
    by (elim conjE)
next
  assume a: "\<not> processing s
       \<and> (disable_mongodb_autoindexing (config s) \<or> ensureIndexes_result env = Inr ())
       \<and> tasks s = Some q
       \<and> mailer_process_result env = Inr ()
       \<and> scraper_process_result env = Inr ()
       \<and> new_AggregatorRegistry_result env = Inr ()
       \<and> isMaster env \<and> 1 < concurrency (config s)
       \<and> metrics_username (config s) = Some u \<and> u \<noteq> []
       \<and> metrics_password (config s) = Some pw \<and> pw \<noteq> []"
  then have t: "truthy (metrics_username (config s)) \<and> truthy (metrics_password (config s))"
    by simp
  from a process_listen_if [of s env q] t
  show "Called (listenAndServe
           (Express [Use None accessLogger,
                     Use (Some ''/cluster_metrics'') (basicAuth (Some u) (Some pw)),
                     Get ''/cluster_metrics'' [noCacheMiddleware, clusterMetricsHandler],
                     Use None notFoundMiddleware, Use None errorLogger, Use None JSONErrorHandler])
           (cluster_metrics_port (config s))) \<in> set (io_trace (process env s))"
    by simp
  from a process_auth_log [of s env q] t
  show "Log ''adding authentication to metrics endpoint'' \<in> set (io_trace (process env s))"
    by simp
next
  assume a: "\<not> processing s
       \<and> (disable_mongodb_autoindexing (config s) \<or> ensureIndexes_result env = Inr ())
       \<and> tasks s = Some q
       \<and> mailer_process_result env = Inr ()
       \<and> scraper_process_result env = Inr ()
       \<and> new_AggregatorRegistry_result env = Inr ()
       \<and> isMaster env \<and> 1 < concurrency (config s)
       \<and> \<not> (truthy (metrics_username (config s)) \<and> truthy (metrics_password (config s)))"
  then have n: "\<not> (truthy (metrics_username (config s)) \<and> truthy (metrics_password (config s)))"
    by (elim conjE)
  from a process_listen_if [of s env q]
  show "Called (listenAndServe
           (Express [Use None accessLogger,
                     Get ''/cluster_metrics'' [noCacheMiddleware, clusterMetricsHandler],
                     Use None notFoundMiddleware, Use None errorLogger, Use None JSONErrorHandler])
           (cluster_metrics_port (config s))) \<in> set (io_trace (process env s))"
    by (simp add: if_not_P [OF n])
  from a process_auth_log [of s env q]
  show "Log ''not adding authentication to metrics endpoint, credentials not provided''
             \<in> set (io_trace (process env s))"
    by (simp add: if_not_P [OF n])
qed

theorem basicAuth_iff_credentials_witness:
  "metrics_username (config (io_state (connect connect_ok example_server))) = Some ''admin''
   \<and> metrics_password (config (io_state (connect connect_ok example_server))) = Some ''secret''
   \<and> isMaster process_ok
   \<and> 1 < concurrency (config (io_state (connect connect_ok example_server)))
   \<and> Called (listenAndServe
        (Express [Use None accessLogger,
                  Use (Some ''/cluster_metrics'') (basicAuth (Some ''admin'') (Some ''secret'')),
                  Get ''/cluster_metrics'' [noCacheMiddleware, clusterMetricsHandler],
                  Use None notFoundMiddleware, Use None errorLogger, Use None JSONErrorHandler])
        (cluster_metrics_port (config (io_state (connect connect_ok example_server)))))
       \<in> set (io_trace (process process_ok (io_state (connect connect_ok example_server))))
   \<and> Log ''adding authentication to metrics endpoint''
       \<in> set (io_trace (process process_ok (io_state (connect connect_ok example_server))))
   \<and> (\<exists>path u pw. Use path (basicAuth u pw)
         \<in> set [Use None accessLogger,
                  Use (Some ''/cluster_metrics'') (basicAuth (Some ''admin'') (Some ''secret'')),
                  Get ''/cluster_metrics'' [noCacheMiddleware, clusterMetricsHandler],
                  Use None notFoundMiddleware, Use None errorLogger, Use None JSONErrorHandler])
   \<and> Called (listenAndServe
        (Express [Use None accessLogger,
                  Get ''/cluster_metrics'' [noCacheMiddleware, clusterMetricsHandler],
                  Use None notFoundMiddleware, Use None errorLogger, Use None JSONErrorHandler])
        (cluster_metrics_port (config ((io_state (connect connect_ok example_server))
             \<lparr>config := example_config\<lparr>metrics_password := Some []\<rparr>\<rparr>))))
       \<in> set (io_trace (process process_ok
            ((io_state (connect connect_ok example_server))
               \<lparr>config := example_config\<lparr>metrics_password := Some []\<rparr>\<rparr>)))
   \<and> \<not> (\<exists>path u pw. Use path (basicAuth u pw)
         \<in> set [Use None accessLogger,
                  Get ''/cluster_metrics'' [noCacheMiddleware, clusterMetricsHandler],
                  Use None notFoundMiddleware, Use None errorLogger, Use None JSONErrorHandler])"
proof -
  let ?s = "io_state (connect connect_ok example_server)"
  let ?nopw = "(io_state (connect connect_ok example_server))
               \<lparr>config := example_config\<lparr>metrics_password := Some []\<rparr>\<rparr>"
  let ?q = "\<lparr> mailer = 20, scraper = 21 \<rparr>"
  let ?with = "[Use None accessLogger,
                  Use (Some ''/cluster_metrics'') (basicAuth (Some ''admin'') (Some ''secret'')),
                  Get ''/cluster_metrics'' [noCacheMiddleware, clusterMetricsHandler],
                  Use None notFoundMiddleware, Use None errorLogger, Use None JSONErrorHandler]"
  let ?without = "[Use None accessLogger,
                  Get ''/cluster_metrics'' [noCacheMiddleware, clusterMetricsHandler],
                  Use None notFoundMiddleware, Use None errorLogger, Use None JSONErrorHandler]"
  have u: "metrics_username (config ?s) = Some ''admin''"
    and pw: "metrics_password (config ?s) = Some ''secret''"
    and c: "1 < concurrency (config ?s)"
    by (simp_all add: connect_def io_defs connect_ok_def example_server_def example_config_def
        new_Server_def)
  have m: "isMaster process_ok"
    by (simp add: process_ok_def)
  have reach: "\<not> processing ?s
       \<and> (disable_mongodb_autoindexing (config ?s) \<or> ensureIndexes_result process_ok = Inr ())
       \<and> tasks ?s = Some ?q
       \<and> mailer_process_result process_ok = Inr ()
       \<and> scraper_process_result process_ok = Inr ()
       \<and> new_AggregatorRegistry_result process_ok = Inr ()
       \<and> isMaster process_ok \<and> 1 < concurrency (config ?s)
       \<and> metrics_username (config ?s) = Some ''admin'' \<and> ''admin'' \<noteq> []
       \<and> metrics_password (config ?s) = Some ''secret'' \<and> ''secret'' \<noteq> []"
    by (simp add: connect_def io_defs connect_ok_def process_ok_def example_server_def
        example_config_def new_Server_def)
  note t = basicAuth_iff_credentials [of ?with "cluster_metrics_port (config ?s)" process_ok ?s
      ?q "''admin''" "''secret''"]
  have mounted: "Called (listenAndServe (Express ?with) (cluster_metrics_port (config ?s)))
         \<in> set (io_trace (process process_ok ?s))
       \<and> Log ''adding authentication to metrics endpoint'' \<in> set (io_trace (process process_ok ?s))"
    using t [THEN conjunct2, THEN conjunct1, THEN mp, OF reach] .
  have reach_nopw: "\<not> processing ?nopw
       \<and> (disable_mongodb_autoindexing (config ?nopw) \<or> ensureIndexes_result process_ok = Inr ())
       \<and> tasks ?nopw = Some ?q
       \<and> mailer_process_result process_ok = Inr ()
       \<and> scraper_process_result process_ok = Inr ()
       \<and> new_AggregatorRegistry_result process_ok = Inr ()
       \<and> isMaster process_ok \<and> 1 < concurrency (config ?nopw)
       \<and> \<not> (truthy (metrics_username (config ?nopw)) \<and> truthy (metrics_password (config ?nopw)))"
    by (simp add: connect_def io_defs connect_ok_def process_ok_def example_server_def
        example_config_def new_Server_def)
  note tn = basicAuth_iff_credentials [of ?without "cluster_metrics_port (config ?nopw)" process_ok ?nopw ?q]
  have plain: "Called (listenAndServe (Express ?without) (cluster_metrics_port (config ?nopw)))
         \<in> set (io_trace (process process_ok ?nopw))"
    using tn [THEN conjunct2, THEN conjunct2, THEN mp, OF reach_nopw] by (rule conjunct1)
  have eq_nopw: "(\<exists>path u pw. Use path (basicAuth u pw) \<in> set ?without)
            = (\<exists>u pw. metrics_username (config ?nopw) = Some u \<and> u \<noteq> []
                     \<and> metrics_password (config ?nopw) = Some pw \<and> pw \<noteq> [])"
    using tn [THEN conjunct1, THEN mp, OF plain] by (elim conjE)
  have none_nopw: "\<not> (\<exists>u pw. metrics_username (config ?nopw) = Some u \<and> u \<noteq> []
                     \<and> metrics_password (config ?nopw) = Some pw \<and> pw \<noteq> [])"
    by simp
  have no_auth: "\<not> (\<exists>path u pw. Use path (basicAuth u pw) \<in> set ?without)"
    unfolding eq_nopw by (rule none_nopw)
  have eq: "(\<exists>path u pw. Use path (basicAuth u pw) \<in> set ?with)
            = (\<exists>u pw. metrics_username (config ?s) = Some u \<and> u \<noteq> []
                     \<and> metrics_password (config ?s) = Some pw \<and> pw \<noteq> [])"
    using t [THEN conjunct1, THEN mp, OF mounted [THEN conjunct1]] by (elim conjE)
  have some: "\<exists>u pw. metrics_username (config ?s) = Some u \<and> u \<noteq> []
                     \<and> metrics_password (config ?s) = Some pw \<and> pw \<noteq> []"
    using u pw by simp
  have auth: "\<exists>path u pw. Use path (basicAuth u pw) \<in> set ?with"
    unfolding eq by (rule some)
  from u pw m c mounted auth plain no_auth show ?thesis
    by (elim conjE) (intro conjI)
qed

subsection \<open>connect is not atomic on error\<close>

text \<open>
  C10. \<open>connect\<close> assigns \<open>connected\<close> before its first call (if that first call,
  \<open>i18n.load\<close>, raises, the flag is already set). So after a \<open>connect\<close> that failed
  partway, every later \<open>connect\<close> throws \<open>server has already connected\<close> without
  running its body, and \<open>start\<close> gets past its guard (its first call is made), also when
  the failure was in \<open>primeAll\<close> and the cache was never primed.
\<close>

theorem failed_connect_stays_connected:
  assumes "\<not> connected s" and "io_result (connect env s) = Inl e"
  shows "connected (io_state (connect env s))
       \<and> connect env' (io_state (connect env s))
           = (Inl (Error ''server has already connected''), io_state (connect env s), [])
       \<and> connect env' (fst (run ops (io_state (connect env s))))
           = (Inl (Error ''server has already connected''),
              fst (run ops (io_state (connect env s))), [])
       \<and> (\<exists>rest. io_trace (start parent senv (io_state (connect env s)))
                    = Called createJWTSigningConfig # rest)
       \<and> (i18n_load_result env = Inl e \<longrightarrow>
            connect env s = (Inl e, s\<lparr>connected := True\<rparr>, [Called i18n_load]))
       \<and> (primeAll_result env = Inl e' \<longrightarrow>
            Returned primeAll \<notin> set (io_trace (connect env s))
            \<and> tasks (io_state (connect env s)) = tasks s)"
proof -
  let ?s' = "io_state (connect env s)"
  have c: "connected ?s'"
    by (rule connect_sets_connected)
  have again: "connect env' ?s' = (Inl (Error ''server has already connected''), ?s', [])"
    using c by (rule connect_when_connected)
  have later: "connect env' (fst (run ops ?s'))
           = (Inl (Error ''server has already connected''), fst (run ops ?s'), [])"
    using c by (intro connect_when_connected run_connected)
  have guard: "\<exists>rest. io_trace (start parent senv ?s') = Called createJWTSigningConfig # rest"
    using c by (simp add: start_def io_defs Let_def split: sum.splits option.splits)
  have first: "i18n_load_result env = Inl e \<longrightarrow>
            connect env s = (Inl e, s\<lparr>connected := True\<rparr>, [Called i18n_load])"
    using assms(1) by (simp add: connect_def io_defs)
  have prime: "primeAll_result env = Inl e' \<longrightarrow>
            Returned primeAll \<notin> set (io_trace (connect env s))
            \<and> tasks (io_state (connect env s)) = tasks s"
    by (simp add: connect_def io_defs split: sum.splits)
  from c again later guard first prime show ?thesis by (intro conjI)
qed

theorem failed_connect_stays_connected_witness:
  "\<not> connected example_server
   \<and> io_result (connect connect_prime_fails example_server) = Inl (Error ''store unreachable'')
   \<and> connected (io_state (connect connect_prime_fails example_server))
   \<and> connect connect_ok (io_state (connect connect_prime_fails example_server))
       = (Inl (Error ''server has already connected''),
          io_state (connect connect_prime_fails example_server), [])
   \<and> (\<exists>rest. io_trace (start None start_ok (io_state (connect connect_prime_fails example_server)))
                = Called createJWTSigningConfig # rest)"
proof -
  have h1: "\<not> connected example_server"
    by (simp add: example_server_def new_Server_def)
  have h2: "io_result (connect connect_prime_fails example_server) = Inl (Error ''store unreachable'')"
    by (simp add: connect_def io_defs connect_prime_fails_def connect_ok_def example_server_def
        new_Server_def)
  from failed_connect_stays_connected [OF h1 h2, of connect_ok "[]" None start_ok] h1 h2
  show ?thesis by blast
qed

end
